theory Spec2Isabelle
  imports Complex_Main
begin

section \<open>Python text primitives\<close>

text \<open>
  A Python \<open>str\<close> is modelled as a \<open>string\<close>. The model is exact for ASCII text. Keywords
  of the source that lie outside ASCII are carried as their UTF-8 bytes, so literal
  containment tests on them stay meaningful; case folding, whitespace and the character
  classes of \<open>re\<close> are the ASCII ones, and a byte above 127 belongs to none of them.
\<close>

datatype py_error =
    ValueError string
  | OverflowError
  | KeyError string
  | TypeError
  | TokenError string


definition py_isspace :: "char \<Rightarrow> bool" where
  "py_isspace c = (c \<in> set [CHR 0x09, CHR 0x0A, CHR 0x0B, CHR 0x0C, CHR 0x0D,
                              CHR 0x1C, CHR 0x1D, CHR 0x1E, CHR 0x1F, CHR 0x20])"

definition lower_char :: "char \<Rightarrow> char" where
  "lower_char c =
     (case map_of (zip ''ABCDEFGHIJKLMNOPQRSTUVWXYZ'' ''abcdefghijklmnopqrstuvwxyz'') c of
        None \<Rightarrow> c
      | Some l \<Rightarrow> l)"

definition py_lower :: "string \<Rightarrow> string" where
  "py_lower s = map lower_char s"

definition py_lstrip :: "string \<Rightarrow> string" where
  "py_lstrip s = dropWhile py_isspace s"

definition py_rstrip :: "string \<Rightarrow> string" where
  "py_rstrip s = rev (dropWhile py_isspace (rev s))"

definition py_strip :: "string \<Rightarrow> string" where
  "py_strip s = py_rstrip (py_lstrip s)"

fun py_startswith :: "string \<Rightarrow> string \<Rightarrow> bool" where
  "py_startswith s [] = True"
| "py_startswith [] (p # ps) = False"
| "py_startswith (x # xs) (p # ps) = (if x = p then py_startswith xs ps else False)"

text \<open>\<open>py_in p s\<close> is Python's \<open>p in s\<close> on strings: \<open>p\<close> occurs as a contiguous run.\<close>

fun py_in :: "string \<Rightarrow> string \<Rightarrow> bool" where
  "py_in p [] = (p = [])"
| "py_in p (x # xs) = (py_startswith (x # xs) p \<or> py_in p xs)"

text \<open>\<open>str(n)\<close> for an integer.\<close>

definition digit_char :: "nat \<Rightarrow> char" where
  "digit_char d = ''0123456789'' ! d"

fun str_nat :: "nat \<Rightarrow> string" where
  "str_nat n = (if n < 10 then [digit_char n] else str_nat (n div 10) @ [digit_char (n mod 10)])"

declare str_nat.simps [simp del]

definition py_str_int :: "int \<Rightarrow> string" where
  "py_str_int i = (if i < 0 then CHR ''-'' # str_nat (nat (- i)) else str_nat (nat i))"

section \<open>The SQL safety gate\<close>

text \<open>
  The gate exists twice: \<open>_ensure_safe_select\<close> in the router and
  \<open>DuckDBClient.ensure_safe_select\<close> in the database client. \<open>sqlglot.parse_one\<close> is a
  library outside the repository; it enters as the parameter \<open>parse_one\<close>, which tells
  how the call ends: it returns, it raises \<open>ParseError\<close>, or it raises \<open>TokenError\<close>, the
  error of the tokenizer. The gates catch \<open>ParseError\<close> only and turn it into a
  \<open>ValueError\<close> that carries the parser's message; a \<open>TokenError\<close> leaves the gate as it
  is. The router's row cap \<open>MAX_ROWS\<close> is read from the environment (default 500) and is
  a parameter; the client's is the constant 500.
\<close>

datatype parse_result =
    Parsed
  | RaisesParseError string
  | RaisesTokenError string

text \<open>The \<open>try\<close> block around \<open>parse_one(sql, read="duckdb")\<close>: the exception it lets out.\<close>

definition try_parse :: "(string \<Rightarrow> parse_result) \<Rightarrow> string \<Rightarrow> py_error option" where
  "try_parse parse_one sql =
     (case parse_one sql of
        Parsed \<Rightarrow> None
      | RaisesParseError e \<Rightarrow> Some (ValueError (''SQL parse error: '' @ e))
      | RaisesTokenError e \<Rightarrow> Some (TokenError e))"

definition BANNED_router :: "string list" where
  "BANNED_router = [''insert'', ''update'', ''delete'', ''alter'', ''drop'', ''create'',
                    ''attach'', ''copy'', ''pragma'']"

definition ensure_safe_select ::
  "(string \<Rightarrow> parse_result) \<Rightarrow> int \<Rightarrow> string \<Rightarrow> py_error + string" where
  "ensure_safe_select parse_one max_rows sql =
     (let low = py_strip (py_lower sql) in
      if CHR '';'' \<in> set sql then Inl (ValueError ''Multiple statements not allowed.'')
      else if \<not> (py_startswith low ''select'' \<or> py_startswith low ''with'')
        then Inl (ValueError ''Only SELECT (or WITH ... SELECT) allowed.'')
      else if list_ex (\<lambda>kw. py_in ('' '' @ kw @ '' '') ('' '' @ low @ '' '')) BANNED_router
        then Inl (ValueError ''Unsafe keyword detected.'')
      else
        (case try_parse parse_one sql of
           Some e \<Rightarrow> Inl e
         | None \<Rightarrow>
             if \<not> py_in '' limit '' ('' '' @ low @ '' '')
             then Inr (''SELECT * FROM ('' @ sql @ '') AS _t LIMIT '' @ py_str_int max_rows)
             else Inr sql))"

definition MAX_ROWS_db :: int where
  "MAX_ROWS_db = 500"

definition BANNED_db :: "string list" where
  "BANNED_db = ['' insert '', '' update '', '' delete '', '' drop '', '' alter '',
                '' create table '', '' attach '', '' copy '', '' pragma '', '' call '',
                '' replace into '']"

text \<open>
  A parser that accepts every statement. It stands for \<open>parse_one\<close> where the gate is
  evaluated on a statement that is valid DuckDB SQL, and for the absent parser when
  \<open>HAS_SQLGLOT\<close> is false.
\<close>

definition lenient_parser :: "string \<Rightarrow> parse_result" where
  "lenient_parser sql = Parsed"

text \<open>\<open>HAS_SQLGLOT\<close> records whether the parser could be imported.\<close>

definition DuckDBClient_ensure_safe_select ::
  "bool \<Rightarrow> (string \<Rightarrow> parse_result) \<Rightarrow> string \<Rightarrow> py_error + string" where
  "DuckDBClient_ensure_safe_select HAS_SQLGLOT parse_one sql =
     (let low = '' '' @ py_strip (py_lower sql) @ '' '' in
      if CHR '';'' \<in> set sql then Inl (ValueError ''Multiple statements not allowed.'')
      else if \<not> (py_startswith (py_strip low) ''select'' \<or> py_startswith (py_strip low) ''with'')
        then Inl (ValueError ''Only SELECT/WITH allowed.'')
      else if list_ex (\<lambda>kw. py_in kw low) BANNED_db
        then Inl (ValueError ''Unsafe keyword detected.'')
      else
        (case (if HAS_SQLGLOT then try_parse parse_one sql else None) of
           Some e \<Rightarrow> Inl e
         | None \<Rightarrow>
             if \<not> py_in '' limit '' low
             then Inr (''SELECT * FROM ('' @ sql @ '') AS _safe LIMIT '' @ py_str_int MAX_ROWS_db)
             else Inr sql))"

text \<open>
  A second stand-in for the parser, for statements that carry a line comment: it accepts
  a statement when its parentheses balance once everything from \<open>--\<close> to the end of
  the line is ignored, and raises \<open>ParseError\<close> otherwise. Every SQL parser demands at
  least that much. String literals are not tracked; the statements it is applied to
  contain none. The message stands for the one of the parser.
\<close>

fun paren_scan :: "bool \<Rightarrow> nat \<Rightarrow> string \<Rightarrow> bool" where
  "paren_scan in_comment depth [] = (depth = 0)"
| "paren_scan in_comment depth (c # cs) =
     (if in_comment then paren_scan (c \<noteq> CHR 0x0A) depth cs
      else if c = CHR ''-'' \<and> take 1 cs = ''-'' then paren_scan True depth cs
      else if c = CHR ''('' then paren_scan False (Suc depth) cs
      else if c = CHR '')'' then (0 < depth \<and> paren_scan False (depth - 1) cs)
      else paren_scan False depth cs)"

definition comment_aware_parser :: "string \<Rightarrow> parse_result" where
  "comment_aware_parser sql =
     (if paren_scan False 0 sql then Parsed else RaisesParseError ''Expecting )'')"


section \<open>Regular expressions\<close>

text \<open>
  The router uses Python's \<open>re.search\<close> with a handful of patterns. \<open>re\<close> is a
  backtracking matcher: alternatives are tried from left to right, a greedy repetition
  takes as much as it can and gives back one character at a time, a lazy one takes as
  little as it can, and the search starts at the leftmost position where a match exists.
  The matcher below is that procedure, written with a continuation for what remains to
  be matched. A state is the character before the position (for \<open>\b\<close>), the text from
  the position on, and the groups captured so far.
\<close>

datatype cls = Digit | Space | Word | AnyButNewline | AnyChar | OneOf string

definition py_isdigit :: "char \<Rightarrow> bool" where
  "py_isdigit c = (c \<in> set ''0123456789'')"

definition py_isword :: "char \<Rightarrow> bool" where
  "py_isword c =
     (c \<in> set ''abcdefghijklmnopqrstuvwxyzABCDEFGHIJKLMNOPQRSTUVWXYZ0123456789_'')"

fun cls_match :: "cls \<Rightarrow> char \<Rightarrow> bool" where
  "cls_match Digit c = py_isdigit c"
| "cls_match Space c = py_isspace c"
| "cls_match Word c = py_isword c"
| "cls_match AnyButNewline c = (c \<noteq> CHR 0x0A)"
| "cls_match AnyChar c = True"
| "cls_match (OneOf s) c = (c \<in> set s)"

datatype rx =
    Str string
  | StrI string
  | Class cls
  | Rep cls nat "nat option"
  | RepLazy cls nat
  | Seq rx rx
  | Alt rx rx
  | Opt rx
  | WordB
  | Eol
  | Grp nat rx

type_synonym rstate = "char option \<times> string \<times> (nat \<times> string) list"

fun under_cap :: "nat \<Rightarrow> nat option \<Rightarrow> bool" where
  "under_cap n None = True"
| "under_cap n (Some h) = (n < h)"

fun rep_greedy ::
  "(char \<Rightarrow> bool) \<Rightarrow> nat \<Rightarrow> nat option \<Rightarrow> nat \<Rightarrow> (rstate \<Rightarrow> rstate option)
     \<Rightarrow> char option \<Rightarrow> (nat \<times> string) list \<Rightarrow> string \<Rightarrow> rstate option" where
  "rep_greedy P lo hi n k p c [] = (if lo \<le> n then k (p, [], c) else None)"
| "rep_greedy P lo hi n k p c (x # xs) =
     (case (if P x \<and> under_cap n hi then rep_greedy P lo hi (Suc n) k (Some x) c xs else None) of
        Some r \<Rightarrow> Some r
      | None \<Rightarrow> if lo \<le> n then k (p, x # xs, c) else None)"

fun rep_lazy ::
  "(char \<Rightarrow> bool) \<Rightarrow> nat \<Rightarrow> nat \<Rightarrow> (rstate \<Rightarrow> rstate option)
     \<Rightarrow> char option \<Rightarrow> (nat \<times> string) list \<Rightarrow> string \<Rightarrow> rstate option" where
  "rep_lazy P lo n k p c [] = (if lo \<le> n then k (p, [], c) else None)"
| "rep_lazy P lo n k p c (x # xs) =
     (case (if lo \<le> n then k (p, x # xs, c) else None) of
        Some r \<Rightarrow> Some r
      | None \<Rightarrow> if P x then rep_lazy P lo (Suc n) k (Some x) c xs else None)"

fun word_at :: "char option \<Rightarrow> bool" where
  "word_at None = False"
| "word_at (Some c) = py_isword c"

fun next_char :: "string \<Rightarrow> char option" where
  "next_char [] = None"
| "next_char (x # xs) = Some x"

fun last_char :: "char option \<Rightarrow> string \<Rightarrow> char option" where
  "last_char p [] = p"
| "last_char p (x # xs) = last_char (Some x) xs"

text \<open>A literal under \<open>re.IGNORECASE\<close>; the literal is written in lower case.\<close>

fun startswith_nocase :: "string \<Rightarrow> string \<Rightarrow> bool" where
  "startswith_nocase s [] = True"
| "startswith_nocase [] (p # ps) = False"
| "startswith_nocase (x # xs) (p # ps) =
     (if lower_char x = p then startswith_nocase xs ps else False)"

fun rx_match :: "rx \<Rightarrow> (rstate \<Rightarrow> rstate option) \<Rightarrow> rstate \<Rightarrow> rstate option" where
  "rx_match (Str s) k (p, r, c) =
     (if py_startswith r s then k (last_char p s, drop (length s) r, c) else None)"
| "rx_match (StrI s) k (p, r, c) =
     (if startswith_nocase r s
      then k (last_char p (take (length s) r), drop (length s) r, c) else None)"
| "rx_match (Class cl) k (p, r, c) =
     (case r of [] \<Rightarrow> None | x # xs \<Rightarrow> if cls_match cl x then k (Some x, xs, c) else None)"
| "rx_match (Rep cl lo hi) k (p, r, c) = rep_greedy (cls_match cl) lo hi 0 k p c r"
| "rx_match (RepLazy cl lo) k (p, r, c) = rep_lazy (cls_match cl) lo 0 k p c r"
| "rx_match (Seq a b) k st = rx_match a (rx_match b k) st"
| "rx_match (Alt a b) k st =
     (case rx_match a k st of Some r \<Rightarrow> Some r | None \<Rightarrow> rx_match b k st)"
| "rx_match (Opt a) k st =
     (case rx_match a k st of Some r \<Rightarrow> Some r | None \<Rightarrow> k st)"
| "rx_match WordB k (p, r, c) =
     (if word_at p \<noteq> word_at (next_char r) then k (p, r, c) else None)"
| "rx_match Eol k (p, r, c) =
     (if r = [] \<or> r = [CHR 0x0A] then k (p, r, c) else None)"
| "rx_match (Grp n a) k (p, r, c) =
     rx_match a (\<lambda>(p', r', c'). k (p', r', (n, take (length r - length r') r) # c')) (p, r, c)"

fun search_from :: "rx \<Rightarrow> char option \<Rightarrow> string \<Rightarrow> rstate option" where
  "search_from re p [] = rx_match re Some (p, [], [])"
| "search_from re p (x # xs) =
     (case rx_match re Some (p, x # xs, []) of
        Some st \<Rightarrow> Some st
      | None \<Rightarrow> search_from re (Some x) xs)"

definition re_search :: "rx \<Rightarrow> string \<Rightarrow> rstate option" where
  "re_search re s = search_from re None s"

text \<open>\<open>m.group(n)\<close> of a match; every group asked for below takes part in its match.\<close>

definition group :: "rstate \<Rightarrow> nat \<Rightarrow> string" where
  "group st n = (case map_of (snd (snd st)) n of None \<Rightarrow> [] | Some g \<Rightarrow> g)"

text \<open>Shorthands for writing patterns.\<close>

fun alts :: "rx list \<Rightarrow> rx" where
  "alts [] = Str []"
| "alts [a] = a"
| "alts (a # b # bs) = Alt a (alts (b # bs))"

fun seqs :: "rx list \<Rightarrow> rx" where
  "seqs [] = Str []"
| "seqs [a] = a"
| "seqs (a # b # bs) = Seq a (seqs (b # bs))"

definition SignedDigits :: rx where
  "SignedDigits = Seq (Opt (Class (OneOf ''+-''))) (Rep Digit 1 None)"

section \<open>Python values and conversions\<close>

text \<open>
  Keywords of the source outside ASCII (Arabic words, a typographic apostrophe and an
  arrow) are written as the bytes of their UTF-8 encoding.
\<close>

fun py_join :: "string \<Rightarrow> string list \<Rightarrow> string" where
  "py_join sep [] = []"
| "py_join sep [x] = x"
| "py_join sep (x # y # ys) = x @ sep @ py_join sep (y # ys)"

datatype pyval =
    PNone
  | PBool bool
  | PInt int
  | PFloat real
  | PStr string
  | PDict "(string \<times> pyval) list"
  | PList "pyval list"

text \<open>
  \<open>int(s)\<close> on text: an optional sign and decimal digits, anything else raises
  \<open>ValueError\<close>. So does a literal of more than 4300 digits, the sign not counted: the
  limit of CPython on the conversion of text to \<open>int\<close>, at its default.
\<close>

definition digit_val :: "char \<Rightarrow> nat" where
  "digit_val c = (of_char c :: nat) - 48"

definition digits_val :: "string \<Rightarrow> nat" where
  "digits_val s = foldl (\<lambda>a c. 10 * a + digit_val c) 0 s"

definition all_digits :: "string \<Rightarrow> bool" where
  "all_digits s = (s \<noteq> [] \<and> list_all py_isdigit s)"

definition int_max_str_digits :: nat where
  "int_max_str_digits = 4300"

definition int_of_digits :: "string \<Rightarrow> py_error + int" where
  "int_of_digits ds =
     (if int_max_str_digits < length ds
      then Inl (ValueError (''Exceeds the limit (4300 digits) for integer string conversion: ''
                  @ ''value has '' @ py_str_int (int (length ds)) @ '' digits; ''
                  @ ''use sys.set_int_max_str_digits() to increase the limit''))
      else Inr (int (digits_val ds)))"

fun py_int :: "string \<Rightarrow> py_error + int" where
  "py_int [] = Inl (ValueError ''invalid literal for int()'')"
| "py_int (c # cs) =
     (if c = CHR ''-'' \<and> all_digits cs then (case int_of_digits cs of Inl e \<Rightarrow> Inl e | Inr n \<Rightarrow> Inr (- n))
      else if c = CHR ''+'' \<and> all_digits cs then int_of_digits cs
      else if all_digits (c # cs) then int_of_digits (c # cs)
      else Inl (ValueError ''invalid literal for int()''))"

text \<open>
  A Python \<open>float\<close> is modelled by the real number it stands for; rounding to the
  nearest double is not modelled. What is modelled exactly is when the conversion of an
  integer to \<open>float\<close> raises \<open>OverflowError\<close>: when the integer rounds to
  \<open>2 ^ 1024\<close> or beyond, that is from \<open>2 ^ 1024 - 2 ^ 970\<close> on.
\<close>

definition float_of_int :: "int \<Rightarrow> py_error + real" where
  "float_of_int n =
     (if 2 ^ 1024 - 2 ^ 970 \<le> \<bar>n\<bar> then Inl OverflowError else Inr (real_of_int n))"

text \<open>Sequencing: an exception raised by the first step ends the computation.\<close>

fun then_do :: "py_error + 'a \<Rightarrow> ('a \<Rightarrow> py_error + 'b) \<Rightarrow> py_error + 'b" where
  "then_do (Inl e) f = Inl e"
| "then_do (Inr a) f = f a"

text \<open>\<open>x or d\<close> on an optional number: \<open>None\<close> and zero are both falsy.\<close>

fun or_int :: "int option \<Rightarrow> int \<Rightarrow> int" where
  "or_int None d = d"
| "or_int (Some n) d = (if n = 0 then d else n)"

fun or_float :: "real option \<Rightarrow> real \<Rightarrow> real" where
  "or_float None d = d"
| "or_float (Some x) d = (if x = 0 then d else x)"

fun opt_int :: "int option \<Rightarrow> pyval" where
  "opt_int None = PNone"
| "opt_int (Some n) = PInt n"

section \<open>The router\<close>

subsection \<open>Helpers\<close>

text \<open>\<open>re.search(r"(-?\d+)", text or "")\<close>\<close>

definition parse_int :: "string \<Rightarrow> py_error + int option" where
  "parse_int s =
     (case re_search (Grp 1 (Seq (Opt (Str ''-'')) (Rep Digit 1 None))) s of
        None \<Rightarrow> Inr None
      | Some m \<Rightarrow> then_do (py_int (group m 1)) (\<lambda>n. Inr (Some n)))"

text \<open>
  \<open>(?:floor|level|storey|verdiep(?:ing)?)\s*([+-]?\d+)\<close> under \<open>re.I\<close>, then the
  fallback \<open>\b([+-]?\d{1,2})\b\<close>.
\<close>

definition parse_floor :: "string \<Rightarrow> string option" where
  "parse_floor s =
     (case re_search
        (seqs [alts [StrI ''floor'', StrI ''level'', StrI ''storey'',
                     Seq (StrI ''verdiep'') (Opt (StrI ''ing''))],
               Rep Space 0 None, Grp 1 SignedDigits]) s of
        Some m \<Rightarrow> Some (group m 1)
      | None \<Rightarrow>
          (case re_search
             (seqs [WordB, Grp 1 (Seq (Opt (Class (OneOf ''+-''))) (Rep Digit 1 (Some 2))), WordB])
             s of
             Some m2 \<Rightarrow> Some (group m2 1)
           | None \<Rightarrow> None))"

definition parse_days_hours :: "string \<Rightarrow> py_error + (int option \<times> int option)" where
  "parse_days_hours q =
     (let ql = py_lower q in
      if re_search (seqs [WordB, Grp 1 (alts [Str ''now'', Str ''right now'', Str ''currently'',
                                               Str ''this moment'']), WordB]) ql \<noteq> None
      then Inr (None, Some 1)
      else
        (case re_search
           (seqs [Grp 1 (alts [Str ''last'', Str ''past'']), Rep Space 1 None,
                  Grp 2 (Rep Digit 1 None), Rep Space 0 None,
                  Grp 3 (alts [Str ''day'', Str ''days'', Str ''week'', Str ''weeks'',
                               Str ''month'', Str ''months''])]) ql of
           Some m \<Rightarrow>
             then_do (py_int (group m 2)) (\<lambda>n.
               let unit = group m 3 in
               if py_startswith unit ''week'' then Inr (Some (n * 7), None)
               else if py_startswith unit ''month'' then Inr (Some (n * 30), None)
               else Inr (Some n, None))
         | None \<Rightarrow>
             if py_in ''last week'' ql \<or> py_in ''past week'' ql then Inr (Some 7, None)
             else if py_in ''last month'' ql \<or> py_in ''past month'' ql then Inr (Some 30, None)
             else Inr (None, None)))"

text \<open>\<open>(?:<|below|under)\s*(\d+)\s*%?\<close>; the result is \<open>int(...) / 100.0\<close>.\<close>

definition parse_threshold_percent :: "string \<Rightarrow> py_error + real option" where
  "parse_threshold_percent q =
     (case re_search
        (seqs [alts [Str ''<'', Str ''below'', Str ''under''], Rep Space 0 None,
               Grp 1 (Rep Digit 1 None), Rep Space 0 None, Opt (Str ''%'')]) q of
        None \<Rightarrow> Inr None
      | Some m \<Rightarrow>
          then_do (py_int (group m 1)) (\<lambda>n.
          then_do (float_of_int n) (\<lambda>x. Inr (Some (x / 100)))))"

definition contains_any :: "string \<Rightarrow> string list \<Rightarrow> bool" where
  "contains_any haystack keywords = list_ex (\<lambda>kw. py_in kw haystack) keywords"

definition needs_agent :: "string \<Rightarrow> bool" where
  "needs_agent q =
     (let ql = py_lower q in
      if contains_any ql [''why'', ''how'', ''explain'', ''recommend'', ''suggest'', ''tradeoff'']
        then True
      else if contains_any ql [''which rooms are'', ''what kind of'', ''describe'', ''policy'',
                               ''rules'', ''definition'', ''meaning'']
        then True
      else if py_in '' and '' ql
              \<and> re_search (seqs [Str ''compare'', Rep Space 1 None, Str ''floors'']) ql = None
        then True
      else if 180 < length ql then True
      else False)"

text \<open>
  \<open>_normalize_text\<close>: lower case, NFKD decomposition with the combining marks removed
  (the identity on ASCII text), every run of whitespace replaced by one space, and the
  result stripped.
\<close>

fun sub_spaces :: "bool \<Rightarrow> string \<Rightarrow> string" where
  "sub_spaces in_run [] = []"
| "sub_spaces in_run (x # xs) =
     (if py_isspace x then (if in_run then sub_spaces True xs else CHR '' '' # sub_spaces True xs)
      else x # sub_spaces False xs)"

definition normalize_text :: "string \<Rightarrow> string" where
  "normalize_text q = py_strip (sub_spaces False (py_lower q))"

definition LIST_VERBS :: "string list" where
  "LIST_VERBS =
    [''list'', ''show'', ''which'', ''what'', ''what are'', ''give me'', ''display'',
     ''enumerate'', ''all'', ''toon'', ''laat zien'', ''welke'', ''wat zijn'',
     ''geef me'', ''alle'',
     [CHR 0xD8, CHR 0xA7, CHR 0xD8, CHR 0xB9, CHR 0xD8, CHR 0xB1, CHR 0xD8, CHR 0xB6],
     [CHR 0xD9, CHR 0x85, CHR 0xD8, CHR 0xA7] @ '' '' @ [CHR 0xD9, CHR 0x87, CHR 0xD9, CHR 0x8A],
     [CHR 0xD9, CHR 0x85, CHR 0xD8, CHR 0xA7, CHR 0xD9, CHR 0x87, CHR 0xD9, CHR 0x8A],
     [CHR 0xD8, CHR 0xA7, CHR 0xD9, CHR 0x8A, CHR 0xD8, CHR 0xB4],
     [CHR 0xD9, CHR 0x83, CHR 0xD9, CHR 0x85],
     [CHR 0xD8, CHR 0xB9, CHR 0xD8, CHR 0xB1, CHR 0xD8, CHR 0xB6],
     [CHR 0xD8, CHR 0xB9, CHR 0xD8, CHR 0xAF, CHR 0xD8, CHR 0xAF],
     [CHR 0xD8, CHR 0xA7, CHR 0xD9, CHR 0x84, CHR 0xD9, CHR 0x83, CHR 0xD9, CHR 0x84]]"

definition FLOOR_WORDS :: "string list" where
  "FLOOR_WORDS =
    [''floor'', ''floors'', ''level'', ''levels'', ''storey'', ''storeys'', ''story'',
     ''stories'', ''verdieping'', ''verdiepingen'', ''etage'', ''etages'', ''niveau'',
     ''niveaus'',
     [CHR 0xD8, CHR 0xB7, CHR 0xD8, CHR 0xA7, CHR 0xD8, CHR 0xA8, CHR 0xD9, CHR 0x82],
     [CHR 0xD8, CHR 0xB7, CHR 0xD9, CHR 0x88, CHR 0xD8, CHR 0xA7, CHR 0xD8, CHR 0xA8, CHR 0xD9, CHR 0x82],
     [CHR 0xD8, CHR 0xAF, CHR 0xD9, CHR 0x88, CHR 0xD8, CHR 0xB1],
     [CHR 0xD8, CHR 0xA7, CHR 0xD8, CHR 0xAF, CHR 0xD9, CHR 0x88, CHR 0xD8, CHR 0xA7, CHR 0xD8, CHR 0xB1],
     [CHR 0xD8, CHR 0xA3, CHR 0xD8, CHR 0xAF, CHR 0xD9, CHR 0x88, CHR 0xD8, CHR 0xA7, CHR 0xD8, CHR 0xB1],
     [CHR 0xD8, CHR 0xAF, CHR 0xD9, CHR 0x88, CHR 0xD8, CHR 0xB1, CHR 0xD8, CHR 0xA7, CHR 0xD9, CHR 0x86]]"

definition ROOM_WORDS :: "string list" where
  "ROOM_WORDS =
    [''room'', ''rooms'', ''ruimte'', ''ruimtes'', ''kamer'', ''kamers'',
     [CHR 0xD8, CHR 0xBA, CHR 0xD8, CHR 0xB1, CHR 0xD9, CHR 0x81, CHR 0xD8, CHR 0xA9],
     [CHR 0xD8, CHR 0xBA, CHR 0xD8, CHR 0xB1, CHR 0xD9, CHR 0x81]]"

definition intent_list_floors :: "string \<Rightarrow> bool" where
  "intent_list_floors q =
     (let qn = normalize_text q in
      if qn \<in> set [''floors'', ''list floors'', ''levels'', ''show floors'', ''welke verdiepingen'',
                     ''toon verdiepingen'', [CHR 0xD9, CHR 0x83, CHR 0xD9, CHR 0x85] @ '' '' @ [CHR 0xD8, CHR 0xB7, CHR 0xD8, CHR 0xA7, CHR 0xD8, CHR 0xA8, CHR 0xD9, CHR 0x82],
                     [CHR 0xD8, CHR 0xB9, CHR 0xD8, CHR 0xAF, CHR 0xD8, CHR 0xAF] @ '' '' @ [CHR 0xD8, CHR 0xA7, CHR 0xD9, CHR 0x84, CHR 0xD8, CHR 0xB7, CHR 0xD9, CHR 0x88, CHR 0xD8, CHR 0xA7, CHR 0xD8, CHR 0xA8, CHR 0xD9, CHR 0x82]]
      then True
      else if contains_any qn LIST_VERBS then contains_any qn FLOOR_WORDS else False)"

text \<open>
  \<open>(?:floor|level|storey|verdiep(?:ing)?|etage|...)\s*([+-]?\d+)\<close>, with three Arabic
  alternatives at the end, and the room code \<open>\b(\d)\.(?:\d{2,3})\b\<close>.
\<close>

definition intent_rooms_on_floor :: "string \<Rightarrow> py_error + int option" where
  "intent_rooms_on_floor q =
     (let qn = normalize_text q;
          m = re_search
                (seqs [alts [Str ''floor'', Str ''level'', Str ''storey'',
                             Seq (Str ''verdiep'') (Opt (Str ''ing'')), Str ''etage'',
                             Str ([CHR 0xD8, CHR 0xA7, CHR 0xD9, CHR 0x84, CHR 0xD8, CHR 0xAF, CHR 0xD9, CHR 0x88, CHR 0xD8, CHR 0xB1]),
                             Str ([CHR 0xD8, CHR 0xB7, CHR 0xD8, CHR 0xA7, CHR 0xD8, CHR 0xA8, CHR 0xD9, CHR 0x82]),
                             Str ([CHR 0xD8, CHR 0xAF, CHR 0xD9, CHR 0x88, CHR 0xD8, CHR 0xB1])],
                       Rep Space 0 None, Grp 1 SignedDigits]) qn;
          m2 = re_search
                 (seqs [WordB, Grp 1 (Class Digit), Str ''.'', Rep Digit 2 (Some 3), WordB]) qn
      in case (case m of None \<Rightarrow> None
                       | Some st \<Rightarrow> if contains_any qn ROOM_WORDS then Some st else None) of
           Some st \<Rightarrow> then_do (py_int (group st 1)) (\<lambda>n. Inr (Some n))
         | None \<Rightarrow>
             (case (case m2 of None \<Rightarrow> None
                            | Some st2 \<Rightarrow> if contains_any qn ROOM_WORDS then Some st2 else None) of
                Some st2 \<Rightarrow> then_do (py_int (group st2 1)) (\<lambda>n. Inr (Some n))
              | None \<Rightarrow> Inr None))"

subsection \<open>The decision record\<close>

text \<open>
  The dataclass \<open>Decision\<close>. Its fields \<open>mode\<close>, \<open>name\<close>, \<open>args\<close>, \<open>sql\<close>,
  \<open>text\<close> and \<open>trace\<close> carry the prefix \<open>d_\<close> here. A field that holds Python's
  \<open>None\<close> is \<open>None\<close>, or \<open>PNone\<close> for \<open>args\<close>, whose value may be any decoded JSON.
\<close>

record Decision =
  d_mode :: string
  d_name :: "string option"
  d_args :: pyval
  d_sql :: "string option"
  d_text :: "string option"
  d_trace :: string

definition tool_decision :: "string \<Rightarrow> (string \<times> pyval) list \<Rightarrow> string \<Rightarrow> Decision" where
  "tool_decision n a t =
     \<lparr>d_mode = ''tool'', d_name = Some n, d_args = PDict a, d_sql = None, d_text = None,
      d_trace = t\<rparr>"

definition sql_decision :: "string \<Rightarrow> string \<Rightarrow> Decision" where
  "sql_decision s t =
     \<lparr>d_mode = ''sql'', d_name = None, d_args = PNone, d_sql = Some s, d_text = None,
      d_trace = t\<rparr>"

definition text_decision :: "string \<Rightarrow> string \<Rightarrow> Decision" where
  "text_decision x t =
     \<lparr>d_mode = ''text'', d_name = None, d_args = PNone, d_sql = None, d_text = Some x,
      d_trace = t\<rparr>"

definition agent_decision :: "string \<Rightarrow> Decision" where
  "agent_decision t =
     \<lparr>d_mode = ''agent'', d_name = None, d_args = PNone, d_sql = None, d_text = None,
      d_trace = t\<rparr>"

subsection \<open>Stage 1: fast intents\<close>

text \<open>
  \<open>_fast_intent\<close> is one function in the source; each of its blocks after the first two
  is a definition of its own here, and \<open>fast_intent\<close> tries them in the source's order.
  A block yields a decision, or nothing when the source falls through to the next block.
  Three traces print the argument mapping with Python's formatting of a \<open>dict\<close>, which
  involves the printing of floats; that built-in enters as the parameter \<open>py_repr\<close>.
\<close>

fun floor_entry :: "string option \<Rightarrow> (string \<times> pyval) list" where
  "floor_entry None = []"
| "floor_entry (Some fl) = (if fl = [] then [] else [(''floor'', PStr fl)])"

definition fast_free_meeting :: "string \<Rightarrow> Decision option" where
  "fast_free_meeting qn =
     (if (py_in ''free'' qn \<or> py_in ''vrij'' qn \<or> py_in ([CHR 0xD9, CHR 0x85, CHR 0xD8, CHR 0xAA, CHR 0xD8, CHR 0xA7, CHR 0xD8, CHR 0xAD]) qn)
         \<and> contains_any qn
         [''meeting room'', ''meeting rooms'', ''vergaderruimte'', ''vergaderruimtes'',
          [CHR 0xD8, CHR 0xBA, CHR 0xD8, CHR 0xB1, CHR 0xD9, CHR 0x81, CHR 0xD8, CHR 0xA9] @ '' '' @ [CHR 0xD8, CHR 0xA7, CHR 0xD8, CHR 0xAC, CHR 0xD8, CHR 0xAA, CHR 0xD9, CHR 0x85, CHR 0xD8, CHR 0xA7, CHR 0xD8, CHR 0xB9],
          [CHR 0xD8, CHR 0xBA, CHR 0xD8, CHR 0xB1, CHR 0xD9, CHR 0x81] @ '' '' @ [CHR 0xD8, CHR 0xA7, CHR 0xD8, CHR 0xAC, CHR 0xD8, CHR 0xAA, CHR 0xD9, CHR 0x85, CHR 0xD8, CHR 0xA7, CHR 0xD8, CHR 0xB9]]
         \<and> contains_any qn
         [''now'', ''currently'', ''nu'',
          [CHR 0xD8, CHR 0xA7, CHR 0xD9, CHR 0x84, CHR 0xD8, CHR 0xA7, CHR 0xD9, CHR 0x86],
          [CHR 0xD8, CHR 0xAD, CHR 0xD8, CHR 0xA7, CHR 0xD9, CHR 0x84, CHR 0xD9, CHR 0x8A, CHR 0xD8, CHR 0xA7, CHR 0xD9, CHR 0x8B]]
      then (case parse_floor qn of
              None \<Rightarrow> None
            | Some fl \<Rightarrow>
                if fl = [] then None
                else Some (tool_decision ''free_meeting_rooms_now'' [(''floor'', PStr fl)]
                             (''fast_intent: free_meeting_rooms_now floor='' @ fl)))
      else None)"

definition fast_utilization_by_floor :: "string \<Rightarrow> py_error + Decision option" where
  "fast_utilization_by_floor qn =
     (if py_in ''utilization'' qn
         \<and> (py_in ''by floor'' qn \<or> py_in ''per floor'' qn \<or> py_in ''per verdieping'' qn)
      then then_do (parse_days_hours qn) (\<lambda>(days, hours).
             let d = or_int days 7 in
             Inr (Some (tool_decision ''utilization_by_floor'' [(''days'', PInt d)]
                          (''fast_intent: utilization_by_floor days='' @ py_str_int d))))
      else Inr None)"

text \<open>
  \<open>\b(utilization|bezetting|benutting)\b.*\b(floor|level|storey|verdiep|etage)\b\<close>
\<close>

definition fast_utilization_floor :: "string \<Rightarrow> py_error + Decision option" where
  "fast_utilization_floor qn =
     (if re_search
           (seqs [WordB, Grp 1 (alts [Str ''utilization'', Str ''bezetting'', Str ''benutting'']),
                  WordB, Rep AnyButNewline 0 None, WordB,
                  Grp 2 (alts [Str ''floor'', Str ''level'', Str ''storey'', Str ''verdiep'',
                               Str ''etage'']), WordB]) qn \<noteq> None
      then (case parse_floor qn of
              None \<Rightarrow> Inr None
            | Some fl \<Rightarrow>
                if fl = [] then Inr None
                else then_do (parse_days_hours qn) (\<lambda>(days, hours).
                       let d = or_int days 7 in
                       Inr (Some (tool_decision ''utilization_floor''
                                    [(''floor'', PStr fl), (''days'', PInt d)]
                                    (''fast_intent: utilization_floor floor='' @ fl @ '' days=''
                                       @ py_str_int d)))))
      else Inr None)"

definition fast_busiest :: "(pyval \<Rightarrow> string) \<Rightarrow> string \<Rightarrow> py_error + Decision option" where
  "fast_busiest py_repr qn =
     (if py_in ''busiest'' qn \<or> py_in ''top rooms'' qn \<or> py_in ''drukste'' qn
         \<or> py_in ([CHR 0xD8, CHR 0xA7, CHR 0xD9, CHR 0x84, CHR 0xD8, CHR 0xA7, CHR 0xD9, CHR 0x83, CHR 0xD8, CHR 0xAB, CHR 0xD8, CHR 0xB1] @ '' '' @ [CHR 0xD8, CHR 0xA7, CHR 0xD8, CHR 0xB2, CHR 0xD8, CHR 0xAF, CHR 0xD8, CHR 0xAD, CHR 0xD8, CHR 0xA7, CHR 0xD9, CHR 0x85, CHR 0xD8, CHR 0xA7]) qn
      then (let fl = parse_floor qn in
            then_do (parse_days_hours qn) (\<lambda>(days, hours).
              let a = [(''days'', PInt (or_int days 7)), (''limit'', PInt 5)] @ floor_entry fl in
              Inr (Some (tool_decision ''busiest_rooms'' a
                           (''fast_intent: busiest_rooms '' @ py_repr (PDict a))))))
      else Inr None)"

definition fast_underused :: "(pyval \<Rightarrow> string) \<Rightarrow> string \<Rightarrow> py_error + Decision option" where
  "fast_underused py_repr qn =
     (if py_in ''underused'' qn \<or> (py_in ''least'' qn \<and> py_in ''used'' qn)
         \<or> py_in ''onderbenut'' qn \<or> py_in ([CHR 0xD8, CHR 0xA7, CHR 0xD9, CHR 0x82, CHR 0xD9, CHR 0x84] @ '' '' @ [CHR 0xD8, CHR 0xA7, CHR 0xD8, CHR 0xB3, CHR 0xD8, CHR 0xAA, CHR 0xD8, CHR 0xAE, CHR 0xD8, CHR 0xAF, CHR 0xD8, CHR 0xA7, CHR 0xD9, CHR 0x85, CHR 0xD8, CHR 0xA7]) qn
      then (let fl = parse_floor qn in
            then_do (parse_days_hours qn) (\<lambda>(days, hours).
            then_do (parse_threshold_percent qn) (\<lambda>t.
              let thr = or_float t (10 / 100);
                  a = [(''days'', PInt (or_int days 30)), (''threshold'', PFloat thr)]
                      @ floor_entry fl in
              Inr (Some (tool_decision ''underused_rooms'' a
                           (''fast_intent: underused_rooms '' @ py_repr (PDict a)))))))
      else Inr None)"

fun floor_or_none :: "string option \<Rightarrow> pyval" where
  "floor_or_none None = PNone"
| "floor_or_none (Some fl) = (if fl = [] then PNone else PStr fl)"

definition fast_coffee :: "(pyval \<Rightarrow> string) \<Rightarrow> string \<Rightarrow> py_error + Decision option" where
  "fast_coffee py_repr qn =
     (if contains_any qn
         [''coffee'', ''pantry'', ''kitchen'', ''koffie'', ''keuken'',
          [CHR 0xD9, CHR 0x85, CHR 0xD8, CHR 0xB7, CHR 0xD8, CHR 0xA8, CHR 0xD8, CHR 0xAE],
          [CHR 0xD9, CHR 0x82, CHR 0xD9, CHR 0x87, CHR 0xD9, CHR 0x88, CHR 0xD8, CHR 0xA9]]
         \<and> contains_any qn
         [''machine'', ''machines'', ''placement'', ''spots'', ''apparaat'', ''plaatsen'',
          [CHR 0xD9, CHR 0x85, CHR 0xD9, CHR 0x83, CHR 0xD8, CHR 0xA7, CHR 0xD9, CHR 0x86],
          [CHR 0xD8, CHR 0xA7, CHR 0xD9, CHR 0x85, CHR 0xD8, CHR 0xA7, CHR 0xD9, CHR 0x83, CHR 0xD9, CHR 0x86]]
      then (let fl = parse_floor qn in
            then_do (parse_days_hours qn) (\<lambda>(days, hours).
            then_do (parse_int qn) (\<lambda>ki.
              let k = or_int ki 2;
                  avoid_quiet = (\<not> (py_in ''ignore quiet'' qn \<or> py_in ''dont avoid quiet'' qn
                                      \<or> py_in (''don'' @ [CHR 0xE2, CHR 0x80, CHR 0x99] @ ''t avoid quiet'') qn
                                      \<or> py_in ''negeer rustig'' qn));
                  a = [(''floor'', floor_or_none fl), (''k'', PInt k), (''hours'', opt_int hours),
                       (''days'', PInt (or_int days 14)), (''avoid_quiet'', PBool avoid_quiet),
                       (''quiet_weight'', PFloat (6 / 10)),
                       (''downweight_refreshment'', PFloat (5 / 10))] in
              Inr (Some (tool_decision ''plan_coffee_machines'' a
                           (''fast_intent: plan_coffee_machines '' @ py_repr (PDict a)))))))
      else Inr None)"

definition fast_intent :: "(pyval \<Rightarrow> string) \<Rightarrow> string \<Rightarrow> py_error + Decision option" where
  "fast_intent py_repr q =
     (let q_raw = q; qn = normalize_text q_raw in
      if intent_list_floors q_raw
      then Inr (Some (tool_decision ''list_floors'' []
                        (''fast_intent: list_floors '' @ [CHR 0xE2, CHR 0x86, CHR 0x92] @ '' tool'')))
      else
       (case intent_rooms_on_floor q_raw of
          Inl e \<Rightarrow> Inl e
        | Inr (Some fl) \<Rightarrow>
            Inr (Some (tool_decision ''rooms_on_floor'' [(''floor'', PStr (py_str_int fl))]
                         (''fast_intent: rooms_on_floor floor='' @ py_str_int fl @ '' ''
                            @ [CHR 0xE2, CHR 0x86, CHR 0x92] @ '' tool'')))
        | Inr None \<Rightarrow>
       (case fast_free_meeting qn of
          Some d \<Rightarrow> Inr (Some d)
        | None \<Rightarrow>
       (case fast_utilization_by_floor qn of
          Inl e \<Rightarrow> Inl e
        | Inr (Some d) \<Rightarrow> Inr (Some d)
        | Inr None \<Rightarrow>
       (case fast_utilization_floor qn of
          Inl e \<Rightarrow> Inl e
        | Inr (Some d) \<Rightarrow> Inr (Some d)
        | Inr None \<Rightarrow>
       (case fast_busiest py_repr qn of
          Inl e \<Rightarrow> Inl e
        | Inr (Some d) \<Rightarrow> Inr (Some d)
        | Inr None \<Rightarrow>
       (case fast_underused py_repr qn of
          Inl e \<Rightarrow> Inl e
        | Inr (Some d) \<Rightarrow> Inr (Some d)
        | Inr None \<Rightarrow> fast_coffee py_repr qn)))))))"

subsection \<open>Stage 2: templated SQL\<close>

definition compare_floors_sql :: "string \<Rightarrow> string \<Rightarrow> string \<Rightarrow> string" where
  "compare_floors_sql d f1 f2 = py_join [CHR 0x0A]
     [[],
      ''            WITH max_ts AS (SELECT MAX(event_timestamp) AS ts FROM events_all),'',
      ''            windowed AS ('',
      ''                SELECT s.floor_n AS floor,'',
      ''                       to_timestamp(e.event_timestamp/1000) AS ts,'',
      ''                       e.occupancy'',
      ''                FROM events_all e'',
      ''                JOIN spaces s ON e.space_id = s.uuid'',
      ''                WHERE to_timestamp(e.event_timestamp/1000) >='',
      ''                     (SELECT to_timestamp(ts/1000) FROM max_ts) - INTERVAL '' @ [CHR 0x27] @ d @ [CHR 0x27] @ '' DAY'',
      ''            ),'',
      ''            hourly AS ('',
      ''                SELECT floor,'',
      ''                       date_trunc('' @ [CHR 0x27] @ ''hour'' @ [CHR 0x27] @ '', ts) AS hour,'',
      ''                       MAX(CASE WHEN LOWER(occupancy)='' @ [CHR 0x27] @ ''occupied'' @ [CHR 0x27] @ '' THEN 1 ELSE 0 END) AS occ'',
      ''                FROM windowed'',
      ''                GROUP BY floor, hour'',
      ''            )'',
      ''            SELECT floor, ROUND(AVG(occ)*100,1) AS occ_rate_percent'',
      ''            FROM hourly'',
      ''            WHERE floor IN ('' @ f1 @ '', '' @ f2 @ '')'',
      ''            GROUP BY floor'',
      ''            ORDER BY floor'',
      ''        '']"

text \<open>\<open>compare\s+floors?\s+([+-]?\d+)\s+(?:and|&)\s+([+-]?\d+)\<close>\<close>

definition fast_sql ::
  "(string \<Rightarrow> parse_result) \<Rightarrow> int \<Rightarrow> string \<Rightarrow> py_error + Decision option" where
  "fast_sql parse_one max_rows q =
     (let ql = py_lower q in
      case re_search
             (seqs [Str ''compare'', Rep Space 1 None, Str ''floor'', Opt (Str ''s''),
                    Rep Space 1 None, Grp 1 SignedDigits, Rep Space 1 None,
                    alts [Str ''and'', Str ''&''], Rep Space 1 None, Grp 2 SignedDigits]) ql of
        None \<Rightarrow> Inr None
      | Some m \<Rightarrow>
          (let f1 = group m 1; f2 = group m 2 in
           then_do (parse_days_hours ql) (\<lambda>(days, hours).
             let d = or_int days 7 in
             then_do (ensure_safe_select parse_one max_rows (compare_floors_sql (py_str_int d) f1 f2))
               (\<lambda>s. Inr (Some (sql_decision s
                        (''fast_sql: compare floors '' @ f1 @ '' vs '' @ f2 @ '' days=''
                           @ py_str_int d)))))))"

subsection \<open>Stages 3 and 4: escalation and the language model\<close>

text \<open>
  The feature flags and the row cap are read from the environment when the module is
  loaded.
\<close>

record config =
  FAST_INTENTS :: bool
  FAST_SQL :: bool
  LLM_ROUTING :: bool
  STRICT_MODE :: bool
  MAX_ROWS :: int

text \<open>
  What the chat-completion call gives back, as far as \<open>infer\<close> looks at it. The call, or
  the access to \<open>resp.choices[0].message\<close>, may raise; otherwise there is a message with
  its \<open>tool_calls\<close> and its \<open>content\<close>. A tool call is an object or a dictionary; its
  \<open>function\<close> is again an object, with attributes \<open>name\<close> and \<open>arguments\<close>, or a
  dictionary with these keys. An object without a \<open>function\<close> makes \<open>call.get\<close> raise.
\<close>

datatype tool_function =
    FnObject "string option" "string option"
  | FnDict "string option" "string option"

datatype tool_call =
    CallWith tool_function
  | CallDictWithoutFunction
  | CallRaises string

datatype llm_reply =
    LlmRaises string
  | LlmMessage "tool_call list" "string option"

fun truthy_str :: "string option \<Rightarrow> string option" where
  "truthy_str None = None"
| "truthy_str (Some s) = (if s = [] then None else Some s)"

text \<open>
  \<open>getattr(fn, "name", None) or (fn.get("name") if isinstance(fn, dict) else None)\<close>
\<close>

fun call_name :: "tool_function option \<Rightarrow> string option" where
  "call_name None = None"
| "call_name (Some (FnObject n a)) = truthy_str n"
| "call_name (Some (FnDict n a)) = n"

text \<open>
  \<open>getattr(fn, "arguments", None) or (fn.get("arguments") if isinstance(fn, dict) else "{}")\<close>
\<close>

fun call_arguments :: "tool_function option \<Rightarrow> string option" where
  "call_arguments None = Some ''{}''"
| "call_arguments (Some (FnObject n a)) =
     (case truthy_str a of None \<Rightarrow> Some ''{}'' | Some s \<Rightarrow> Some s)"
| "call_arguments (Some (FnDict n a)) = a"

text \<open>
  \<open>json.loads\<close> is a library function; it enters as \<open>json_loads\<close>, which gives the
  decoded value, or nothing when decoding raises.
\<close>

definition decode_args :: "(string \<Rightarrow> pyval option) \<Rightarrow> string option \<Rightarrow> pyval" where
  "decode_args json_loads args_str =
     (case args_str of
        None \<Rightarrow> PDict []
      | Some s \<Rightarrow>
          if py_strip s \<noteq> []
          then (case json_loads s of None \<Rightarrow> PDict [] | Some v \<Rightarrow> v)
          else PDict [])"

fun py_str_error :: "py_error \<Rightarrow> string" where
  "py_str_error (ValueError msg) = msg"
| "py_str_error OverflowError = ''int too large to convert to float''"
| "py_str_error (KeyError k) = k"
| "py_str_error TypeError = ''TypeError''"
| "py_str_error (TokenError msg) = msg"

definition router_error :: "string \<Rightarrow> Decision" where
  "router_error e = text_decision (''Router error: '' @ e) ''exception''"

text \<open>
  The two patterns that look for SQL in the reply, both under
  \<open>re.DOTALL | re.IGNORECASE\<close>: a fenced block opened by three backquotes and \<open>sql\<close>,
  whose body \<open>(.+?)\<close> runs to the next three backquotes, and \<open>(select\s.+)$\<close>.
\<close>

definition find_sql :: "string \<Rightarrow> rstate option" where
  "find_sql content =
     (case re_search (seqs [StrI ''```sql'', Rep Space 0 None, Grp 1 (RepLazy AnyChar 1),
                            Str ''```'']) content of
        Some m \<Rightarrow> Some m
      | None \<Rightarrow>
          re_search (seqs [Grp 1 (seqs [StrI ''select'', Class Space, Rep AnyChar 1 None]), Eol])
            content)"

definition llm_stage ::
  "config \<Rightarrow> (string \<Rightarrow> parse_result) \<Rightarrow> (string \<Rightarrow> pyval option) \<Rightarrow> llm_reply
     \<Rightarrow> Decision" where
  "llm_stage cfg parse_one json_loads reply =
     (case reply of
        LlmRaises e \<Rightarrow> router_error e
      | LlmMessage tool_calls content \<Rightarrow>
          (case tool_calls of
             call # rest \<Rightarrow>
               (case call of
                  CallRaises e \<Rightarrow> router_error e
                | CallDictWithoutFunction \<Rightarrow>
                    \<lparr>d_mode = ''tool'', d_name = call_name None,
                     d_args = decode_args json_loads (call_arguments None),
                     d_sql = None, d_text = None, d_trace = ''llm: tool_choice''\<rparr>
                | CallWith fn \<Rightarrow>
                    \<lparr>d_mode = ''tool'', d_name = call_name (Some fn),
                     d_args = decode_args json_loads (call_arguments (Some fn)),
                     d_sql = None, d_text = None, d_trace = ''llm: tool_choice''\<rparr>)
           | [] \<Rightarrow>
               (let c = (case content of None \<Rightarrow> [] | Some s \<Rightarrow> s) in
                case find_sql c of
                  Some m \<Rightarrow>
                    (case ensure_safe_select parse_one (MAX_ROWS cfg) (py_strip (group m 1)) of
                       Inl e \<Rightarrow> router_error (py_str_error e)
                     | Inr s \<Rightarrow> sql_decision s ''llm: sql_fallback'')
                | None \<Rightarrow>
                    if STRICT_MODE cfg
                    then text_decision
                           (''I can'' @ [CHR 0xE2, CHR 0x80, CHR 0x99] @ ''t answer that from your provided data. ''
                              @ ''Try specifying a floor/room/time window or ask for a metric.'')
                           ''llm: no tool/SQL; strict refusal''
                    else text_decision (if c = [] then ''I'' @ [CHR 0xE2, CHR 0x80, CHR 0x99] @ ''m not sure.'' else c)
                           ''llm: plain text'')))"

text \<open>
  \<open>NLRouter.infer\<close>. The reply of the language model to the prompt built from the
  question is the parameter \<open>llm\<close>. The result is the decision, or the exception that
  leaves \<open>infer\<close>: only the language-model stage is inside \<open>try\<close>.
\<close>

definition infer ::
  "config \<Rightarrow> (string \<Rightarrow> parse_result) \<Rightarrow> (string \<Rightarrow> pyval option) \<Rightarrow> (pyval \<Rightarrow> string)
     \<Rightarrow> (string \<Rightarrow> llm_reply) \<Rightarrow> string option \<Rightarrow> py_error + Decision" where
  "infer cfg parse_one json_loads py_repr llm user_text =
     (let q = py_strip (case user_text of None \<Rightarrow> [] | Some t \<Rightarrow> t) in
      case (if FAST_INTENTS cfg then fast_intent py_repr q else Inr None) of
        Inl e \<Rightarrow> Inl e
      | Inr (Some d) \<Rightarrow> Inr d
      | Inr None \<Rightarrow>
     (case (if FAST_SQL cfg then fast_sql parse_one (MAX_ROWS cfg) q else Inr None) of
        Inl e \<Rightarrow> Inl e
      | Inr (Some d) \<Rightarrow> Inr d
      | Inr None \<Rightarrow>
          if needs_agent q then Inr (agent_decision ''heuristic: needs_agent'')
          else if \<not> LLM_ROUTING cfg
          then Inr (text_decision (''I can'' @ [CHR 0xE2, CHR 0x80, CHR 0x99] @ ''t answer that from your provided data and tools.'') ''llm_routing disabled'')
          else Inr (llm_stage cfg parse_one json_loads (llm q))))"

subsection \<open>The shape of a decision\<close>






text \<open>
  Values for the parameters, for evaluating \<open>infer\<close>: the configuration the module has
  when no environment variable is set, a decoder that knows the two JSON texts used
  below, a printer for the traces, and three replies of the language model: one choosing
  a tool with an empty name and \<open>null\<close> arguments, one, in dictionary form, choosing a
  tool with an empty name and no arguments, and one choosing \<open>list_floors\<close>.
\<close>

definition default_config :: config where
  "default_config =
     \<lparr>FAST_INTENTS = True, FAST_SQL = True, LLM_ROUTING = True, STRICT_MODE = True,
      MAX_ROWS = 500\<rparr>"






section \<open>Facts about text and the safety gate\<close>

lemma py_startswith_iff: "py_startswith s p \<longleftrightarrow> (\<exists>b. s = p @ b)"
  by (induction s p rule: py_startswith.induct) auto

lemma py_in_iff: "py_in p s \<longleftrightarrow> (\<exists>a b. s = a @ p @ b)"
proof (induction s)
  case Nil
  then show ?case by auto
next
  case (Cons x xs)
  show ?case
  proof
    assume "py_in p (x # xs)"
    then consider "py_startswith (x # xs) p" | "py_in p xs" by auto
    then show "\<exists>a b. x # xs = a @ p @ b"
    proof cases
      case 1
      then obtain b where "x # xs = p @ b" using py_startswith_iff by blast
      then have "x # xs = [] @ p @ b" by simp
      then show ?thesis by blast
    next
      case 2
      then obtain a b where "xs = a @ p @ b" using Cons.IH by blast
      then have "x # xs = (x # a) @ p @ b" by simp
      then show ?thesis by blast
    qed
  next
    assume "\<exists>a b. x # xs = a @ p @ b"
    then obtain a b where ab: "x # xs = a @ p @ b" by blast
    show "py_in p (x # xs)"
    proof (cases a)
      case Nil
      then have "py_startswith (x # xs) p" using ab py_startswith_iff by auto
      then show ?thesis by simp
    next
      case (Cons y ys)
      then have "xs = ys @ p @ b" using ab by simp
      then have "py_in p xs" using Cons.IH by blast
      then show ?thesis by simp
    qed
  qed
qed






lemma str_nat_nonempty: "str_nat n \<noteq> []"
  by (subst str_nat.simps) simp

lemma py_str_int_nonempty: "py_str_int i \<noteq> []"
  by (simp add: py_str_int_def str_nat_nonempty)

lemma py_strip_id:
  assumes "s \<noteq> []" "\<not> py_isspace (hd s)" "\<not> py_isspace (last s)"
  shows "py_strip s = s"
proof -
  have 1: "py_lstrip s = s" using assms by (cases s) (auto simp: py_lstrip_def)
  have "rev s \<noteq> []" "\<not> py_isspace (hd (rev s))" using assms by (auto simp: hd_rev)
  then have "dropWhile py_isspace (rev s) = rev s" by (cases "rev s") auto
  then show ?thesis using 1 by (simp add: py_strip_def py_rstrip_def)
qed


















section \<open>Facts about the router\<close>

















section \<open>A question that names a very large threshold\<close>

text \<open>
  Facts for questions that end in a run of decimal digits. A keyword without a digit
  occurs in such a question only if it occurs before the digits, so the containment
  tests of the router are decided by the words in front.
\<close>

lemma digit_chars_plain:
  "list_all (\<lambda>c. lower_char c = c \<and> \<not> py_isspace c \<and> c \<noteq> CHR ''-'' \<and> c \<noteq> CHR ''+'') ''0123456789''"
  by code_simp

lemma digit_plain:
  assumes "py_isdigit c"
  shows "lower_char c = c" "\<not> py_isspace c" "c \<noteq> CHR ''-''" "c \<noteq> CHR ''+''"
  using assms digit_chars_plain unfolding py_isdigit_def list_all_iff by blast+

lemma digits_lower: "list_all py_isdigit ds \<Longrightarrow> py_lower ds = ds"
  unfolding py_lower_def list_all_iff by (simp add: map_idI digit_plain(1))

lemma digits_sub_spaces: "list_all py_isdigit ds \<Longrightarrow> sub_spaces b ds = ds"
  by (induction ds arbitrary: b) (simp_all add: digit_plain(2))

lemma digits_no_startswith:
  "list_all py_isdigit ds \<Longrightarrow> \<not> py_isdigit p \<Longrightarrow> py_startswith ds (p # ps) = False"
  by (cases ds) auto

lemma digits_no_in:
  "list_all py_isdigit ds \<Longrightarrow> \<not> py_isdigit p \<Longrightarrow> py_in (p # ps) ds = False"
  by (induction ds) (auto simp: digits_no_startswith)

lemma startswith_digits_tail:
  "list_all py_isdigit ds \<Longrightarrow> list_all (\<lambda>c. \<not> py_isdigit c) w \<Longrightarrow>
   py_startswith (a @ ds) w = py_startswith a w"
proof (induction a w rule: py_startswith.induct)
  case (1 s)
  then show ?case by simp
next
  case (2 p ps)
  then show ?case using digits_no_startswith [of ds p ps] by simp
next
  case (3 x xs p ps)
  then show ?case by simp
qed

lemma py_in_digits_tail:
  assumes "list_all py_isdigit ds" "list_all (\<lambda>c. \<not> py_isdigit c) w" "w \<noteq> []"
  shows "py_in w (a @ ds) = py_in w a"
proof (induction a)
  case Nil
  obtain p ps where w: "w = p # ps" using assms(3) by (cases w) auto
  then have "\<not> py_isdigit p" using assms(2) by simp
  then show ?case using digits_no_in [OF assms(1)] w by simp
next
  case (Cons x xs)
  then show ?case using startswith_digits_tail [OF assms(1,2), of "x # xs"] by simp
qed

lemma absent_digits_tail:
  assumes "list_all py_isdigit ds"
    and "list_all (\<lambda>w. w \<noteq> [] \<and> list_all (\<lambda>c. \<not> py_isdigit c) w \<and> \<not> py_in w a) ws"
  shows "list_all (\<lambda>w. \<not> py_in w (a @ ds)) ws"
  using assms(2) py_in_digits_tail [OF assms(1)] unfolding list_all_iff by blast

lemma digits_no_space_run:
  "list_all py_isdigit ds \<Longrightarrow>
   rep_greedy (cls_match Space) lo hi n k p c ds = (if lo \<le> n then k (p, ds, c) else None)"
  by (cases ds) (simp_all add: digit_plain(2))

lemma rep_greedy_all:
  "list_all P ds \<Longrightarrow> lo \<le> n + length ds \<Longrightarrow> k (last_char p ds, [], c) \<noteq> None \<Longrightarrow>
   rep_greedy P lo None n k p c ds = k (last_char p ds, [], c)"
proof (induction ds arbitrary: n p)
  case Nil
  then show ?case by simp
next
  case (Cons x xs)
  have "rep_greedy P lo None (Suc n) k (Some x) c xs = k (last_char (Some x) xs, [], c)"
    using Cons by simp
  then show ?case using Cons.prems by (auto split: option.splits)
qed

lemma digits_py_int:
  "list_all py_isdigit ds \<Longrightarrow> ds \<noteq> [] \<Longrightarrow> length ds \<le> 4300 \<Longrightarrow>
   py_int ds = Inr (int (digits_val ds))"
  by (cases ds) (auto simp: all_digits_def digit_plain int_of_digits_def int_max_str_digits_def)

lemma digits_val_snoc: "digits_val (xs @ [c]) = 10 * digits_val xs + digit_val c"
  by (simp add: digits_val_def)

lemma digits_val_nines: "digits_val (replicate n (CHR ''9'')) = 10 ^ n - 1"
proof (induction n)
  case 0
  then show ?case by (simp add: digits_val_def)
next
  case (Suc n)
  have "replicate (Suc n) (CHR ''9'') = replicate n (CHR ''9'') @ [CHR ''9'']"
    by (simp add: replicate_append_same)
  moreover have "digit_val (CHR ''9'') = 9" by (simp add: digit_val_def)
  moreover have "(10::nat) ^ n \<ge> 1" by simp
  ultimately show ?case using Suc by (simp add: digits_val_snoc algebra_simps)
qed

lemma nines_overflow: "float_of_int (int (10 ^ 310 - 1)) = Inl OverflowError"
proof -
  have "(2::int) ^ 1024 - 2 ^ 970 \<le> 10 ^ 310 - 1" by simp
  moreover have "int (10 ^ 310 - 1) = 10 ^ 310 - 1" by (simp add: of_nat_diff)
  ultimately have "2 ^ 1024 - 2 ^ 970 \<le> \<bar>int (10 ^ 310 - 1)\<bar>" by (simp del: power_numeral)
  then show ?thesis unfolding float_of_int_def by (simp only: if_True)
qed

lemma search_none:
  assumes "\<And>p r. (\<exists>a. s = a @ r) \<Longrightarrow> rx_match re Some (p, r, []) = None"
  shows "search_from re p s = None"
  using assms
proof (induction s arbitrary: p)
  case Nil
  then show ?case by simp
next
  case (Cons x xs)
  have here: "rx_match re Some (p, x # xs, []) = None"
    using Cons.prems [of "x # xs" p] by simp
  have "\<And>p r. (\<exists>a. xs = a @ r) \<Longrightarrow> rx_match re Some (p, r, []) = None"
  proof -
    fix p r
    assume "\<exists>a. xs = a @ r"
    then obtain a where "xs = a @ r" by blast
    then have "x # xs = (x # a) @ r" by simp
    then show "rx_match re Some (p, r, []) = None" using Cons.prems by blast
  qed
  then have "search_from re (Some x) xs = None" using Cons.IH by blast
  then show ?case using here by simp
qed

lemma py_in_suffix: "\<not> py_in kw s \<Longrightarrow> s = a @ r \<Longrightarrow> \<not> py_startswith r kw"
  unfolding py_in_iff py_startswith_iff by auto

lemma utilization_regex_none:
  assumes "\<not> py_in ''utilization'' s" "\<not> py_in ''bezetting'' s" "\<not> py_in ''benutting'' s"
  shows "re_search
           (seqs [WordB, Grp 1 (alts [Str ''utilization'', Str ''bezetting'', Str ''benutting'']),
                  WordB, Rep AnyButNewline 0 None, WordB,
                  Grp 2 (alts [Str ''floor'', Str ''level'', Str ''storey'', Str ''verdiep'',
                               Str ''etage'']), WordB]) s = None"
  unfolding re_search_def
proof (rule search_none)
  fix p r
  assume "\<exists>a. s = a @ r"
  then obtain a where a: "s = a @ r" by blast
  have "\<not> py_startswith r ''utilization''" "\<not> py_startswith r ''bezetting''"
    "\<not> py_startswith r ''benutting''"
    using assms a py_in_suffix by blast+
  then show "rx_match
           (seqs [WordB, Grp 1 (alts [Str ''utilization'', Str ''bezetting'', Str ''benutting'']),
                  WordB, Rep AnyButNewline 0 None, WordB,
                  Grp 2 (alts [Str ''floor'', Str ''level'', Str ''storey'', Str ''verdiep'',
                               Str ''etage'']), WordB]) Some (p, r, []) = None"
    by simp
qed

lemma now_regex_none:
  assumes "\<not> py_in ''now'' s" "\<not> py_in ''right now'' s" "\<not> py_in ''currently'' s"
    "\<not> py_in ''this moment'' s"
  shows "re_search (seqs [WordB, Grp 1 (alts [Str ''now'', Str ''right now'', Str ''currently'',
                                               Str ''this moment'']), WordB]) s = None"
  unfolding re_search_def
proof (rule search_none)
  fix p r
  assume "\<exists>a. s = a @ r"
  then obtain a where a: "s = a @ r" by blast
  have "\<not> py_startswith r ''now''" "\<not> py_startswith r ''right now''"
    "\<not> py_startswith r ''currently''" "\<not> py_startswith r ''this moment''"
    using assms a py_in_suffix by blast+
  then show "rx_match (seqs [WordB, Grp 1 (alts [Str ''now'', Str ''right now'', Str ''currently'',
                                               Str ''this moment'']), WordB]) Some (p, r, []) = None"
    by simp
qed

lemma last_regex_none:
  assumes "\<not> py_in ''last'' s" "\<not> py_in ''past'' s"
  shows "re_search
           (seqs [Grp 1 (alts [Str ''last'', Str ''past'']), Rep Space 1 None,
                  Grp 2 (Rep Digit 1 None), Rep Space 0 None,
                  Grp 3 (alts [Str ''day'', Str ''days'', Str ''week'', Str ''weeks'',
                               Str ''month'', Str ''months''])]) s = None"
  unfolding re_search_def
proof (rule search_none)
  fix p r
  assume "\<exists>a. s = a @ r"
  then obtain a where a: "s = a @ r" by blast
  have "\<not> py_startswith r ''last''" "\<not> py_startswith r ''past''"
    using assms a py_in_suffix by blast+
  then show "rx_match
           (seqs [Grp 1 (alts [Str ''last'', Str ''past'']), Rep Space 1 None,
                  Grp 2 (Rep Digit 1 None), Rep Space 0 None,
                  Grp 3 (alts [Str ''day'', Str ''days'', Str ''week'', Str ''weeks'',
                               Str ''month'', Str ''months''])]) Some (p, r, []) = None"
    by simp
qed

lemma threshold_found:
  assumes "list_all py_isdigit ds" "ds \<noteq> []"
  shows "re_search
        (seqs [alts [Str ''<'', Str ''below'', Str ''under''], Rep Space 0 None,
               Grp 1 (Rep Digit 1 None), Rep Space 0 None, Opt (Str ''%'')])
        (''underused below '' @ ds)
      = Some (last_char (Some (CHR '' '')) ds, [], [(1, ds)])"
proof -
  have len: "Suc 0 \<le> length ds" using assms(2) by (cases ds) auto
  have d: "list_all (cls_match Digit) ds" using assms(1) by (simp add: list_all_iff)
  show ?thesis
    using assms len d
    by (simp add: re_search_def digits_no_space_run rep_greedy_all py_isspace_def py_isdigit_def)
qed

lemma threshold_overflow:
  "parse_threshold_percent (''underused below '' @ replicate 310 (CHR ''9'')) = Inl OverflowError"
proof -
  let ?ds = "replicate 310 (CHR ''9'')"
  have d: "list_all py_isdigit ?ds" by (simp add: list_all_iff py_isdigit_def)
  have n: "?ds \<noteq> []" by simp
  have i: "py_int ?ds = Inr (int (10 ^ 310 - 1))"
    using digits_py_int [OF d n] by (simp only: digits_val_nines length_replicate)
  have g: "group (last_char (Some (CHR '' '')) ?ds, [], [(1, ?ds)]) 1 = ?ds"
    by (simp add: group_def)
  show ?thesis
    unfolding parse_threshold_percent_def threshold_found [OF d n]
    by (simp only: option.case g i then_do.simps nines_overflow)
qed

lemma question_normal:
  assumes "list_all py_isdigit ds" "ds \<noteq> []"
  shows "py_lower (''underused below '' @ ds) = ''underused below '' @ ds"
    and "normalize_text (''underused below '' @ ds) = ''underused below '' @ ds"
    and "py_strip (''underused below '' @ ds) = ''underused below '' @ ds"
proof -
  let ?q = "''underused below '' @ ds"
  have a: "py_lower ''underused below '' = ''underused below ''" by code_simp
  show l: "py_lower ?q = ?q" using digits_lower [OF assms(1)] a by (simp add: py_lower_def)
  have s: "sub_spaces False ?q = ?q"
    by (simp add: py_isspace_def digits_sub_spaces [OF assms(1)])
  have "last ?q = last ds" using assms(2) by simp
  moreover have "py_isdigit (last ds)" using assms by (simp add: list_all_iff)
  ultimately have e: "\<not> py_isspace (last ?q)" using digit_plain(2) by metis
  have "?q \<noteq> []" by simp
  moreover have "\<not> py_isspace (hd ?q)" by (simp add: py_isspace_def)
  ultimately show t: "py_strip ?q = ?q" using e by (rule py_strip_id)
  show "normalize_text ?q = ?q" unfolding normalize_text_def l s t ..
qed

lemma question_absent:
  assumes "list_all py_isdigit ds"
  shows "list_all (\<lambda>w. \<not> py_in w (''underused below '' @ ds))
           [''free'', ''vrij'', [CHR 0xD9, CHR 0x85, CHR 0xD8, CHR 0xAA, CHR 0xD8, CHR 0xA7, CHR 0xD8, CHR 0xAD], ''utilization'', ''bezetting'', ''benutting'',
            ''busiest'', ''top rooms'', ''drukste'', [CHR 0xD8, CHR 0xA7, CHR 0xD9, CHR 0x84, CHR 0xD8, CHR 0xA7, CHR 0xD9, CHR 0x83, CHR 0xD8, CHR 0xAB, CHR 0xD8, CHR 0xB1] @ '' '' @ [CHR 0xD8, CHR 0xA7, CHR 0xD8, CHR 0xB2, CHR 0xD8, CHR 0xAF, CHR 0xD8, CHR 0xAD, CHR 0xD8, CHR 0xA7, CHR 0xD9, CHR 0x85, CHR 0xD8, CHR 0xA7],
            ''now'', ''right now'', ''currently'', ''this moment'', ''last'', ''past'',
            ''last week'', ''past week'', ''last month'', ''past month'']"
    and "\<not> contains_any (''underused below '' @ ds) LIST_VERBS"
    and "\<not> contains_any (''underused below '' @ ds) ROOM_WORDS"
proof -
  have 1: "list_all (\<lambda>w. w \<noteq> [] \<and> list_all (\<lambda>c. \<not> py_isdigit c) w \<and> \<not> py_in w ''underused below '')
           [''free'', ''vrij'', [CHR 0xD9, CHR 0x85, CHR 0xD8, CHR 0xAA, CHR 0xD8, CHR 0xA7, CHR 0xD8, CHR 0xAD], ''utilization'', ''bezetting'', ''benutting'',
            ''busiest'', ''top rooms'', ''drukste'', [CHR 0xD8, CHR 0xA7, CHR 0xD9, CHR 0x84, CHR 0xD8, CHR 0xA7, CHR 0xD9, CHR 0x83, CHR 0xD8, CHR 0xAB, CHR 0xD8, CHR 0xB1] @ '' '' @ [CHR 0xD8, CHR 0xA7, CHR 0xD8, CHR 0xB2, CHR 0xD8, CHR 0xAF, CHR 0xD8, CHR 0xAD, CHR 0xD8, CHR 0xA7, CHR 0xD9, CHR 0x85, CHR 0xD8, CHR 0xA7],
            ''now'', ''right now'', ''currently'', ''this moment'', ''last'', ''past'',
            ''last week'', ''past week'', ''last month'', ''past month'']"
    by code_simp
  have 2: "list_all (\<lambda>w. w \<noteq> [] \<and> list_all (\<lambda>c. \<not> py_isdigit c) w \<and> \<not> py_in w ''underused below '')
           LIST_VERBS"
    by code_simp
  have 3: "list_all (\<lambda>w. w \<noteq> [] \<and> list_all (\<lambda>c. \<not> py_isdigit c) w \<and> \<not> py_in w ''underused below '')
           ROOM_WORDS"
    by code_simp
  show "list_all (\<lambda>w. \<not> py_in w (''underused below '' @ ds))
           [''free'', ''vrij'', [CHR 0xD9, CHR 0x85, CHR 0xD8, CHR 0xAA, CHR 0xD8, CHR 0xA7, CHR 0xD8, CHR 0xAD], ''utilization'', ''bezetting'', ''benutting'',
            ''busiest'', ''top rooms'', ''drukste'', [CHR 0xD8, CHR 0xA7, CHR 0xD9, CHR 0x84, CHR 0xD8, CHR 0xA7, CHR 0xD9, CHR 0x83, CHR 0xD8, CHR 0xAB, CHR 0xD8, CHR 0xB1] @ '' '' @ [CHR 0xD8, CHR 0xA7, CHR 0xD8, CHR 0xB2, CHR 0xD8, CHR 0xAF, CHR 0xD8, CHR 0xAD, CHR 0xD8, CHR 0xA7, CHR 0xD9, CHR 0x85, CHR 0xD8, CHR 0xA7],
            ''now'', ''right now'', ''currently'', ''this moment'', ''last'', ''past'',
            ''last week'', ''past week'', ''last month'', ''past month'']"
    using absent_digits_tail [OF assms 1] .
  show "\<not> contains_any (''underused below '' @ ds) LIST_VERBS"
    using absent_digits_tail [OF assms 2] unfolding contains_any_def list_all_iff list_ex_iff
    by blast
  show "\<not> contains_any (''underused below '' @ ds) ROOM_WORDS"
    using absent_digits_tail [OF assms 3] unfolding contains_any_def list_all_iff list_ex_iff
    by blast
qed

lemma question_falls_through:
  assumes "list_all py_isdigit ds" "ds \<noteq> []"
  shows "\<not> intent_list_floors (''underused below '' @ ds)"
    and "intent_rooms_on_floor (''underused below '' @ ds) = Inr None"
    and "fast_free_meeting (''underused below '' @ ds) = None"
    and "fast_utilization_by_floor (''underused below '' @ ds) = Inr None"
    and "fast_utilization_floor (''underused below '' @ ds) = Inr None"
    and "fast_busiest py_repr (''underused below '' @ ds) = Inr None"
    and "parse_days_hours (''underused below '' @ ds) = Inr (None, None)"
    and "py_in ''underused'' (''underused below '' @ ds)"
proof -
  let ?q = "''underused below '' @ ds"
  note n = question_normal [OF assms]
  note ab = question_absent(1) [OF assms(1), unfolded list.pred_inject simp_thms]
  note verbs = question_absent(2) [OF assms(1)]
  note rooms = question_absent(3) [OF assms(1)]
  have first: "?q \<notin> set [''floors'', ''list floors'', ''levels'', ''show floors'',
      ''welke verdiepingen'', ''toon verdiepingen'', [CHR 0xD9, CHR 0x83, CHR 0xD9, CHR 0x85] @ '' '' @ [CHR 0xD8, CHR 0xB7, CHR 0xD8, CHR 0xA7, CHR 0xD8, CHR 0xA8, CHR 0xD9, CHR 0x82], [CHR 0xD8, CHR 0xB9, CHR 0xD8, CHR 0xAF, CHR 0xD8, CHR 0xAF] @ '' '' @ [CHR 0xD8, CHR 0xA7, CHR 0xD9, CHR 0x84, CHR 0xD8, CHR 0xB7, CHR 0xD9, CHR 0x88, CHR 0xD8, CHR 0xA7, CHR 0xD8, CHR 0xA8, CHR 0xD9, CHR 0x82]]"
    by simp
  show "\<not> intent_list_floors ?q"
    unfolding intent_list_floors_def Let_def n(2) using first verbs by (simp only: if_False simp_thms)
  show "intent_rooms_on_floor ?q = Inr None"
    unfolding intent_rooms_on_floor_def Let_def n(2) using rooms
    by (simp only: if_False) (simp split: option.split)
  show "fast_free_meeting ?q = None"
    unfolding fast_free_meeting_def using ab by (simp only: simp_thms if_False)
  show "fast_utilization_by_floor ?q = Inr None"
    unfolding fast_utilization_by_floor_def using ab by (simp only: simp_thms if_False)
  have "re_search
           (seqs [WordB, Grp 1 (alts [Str ''utilization'', Str ''bezetting'', Str ''benutting'']),
                  WordB, Rep AnyButNewline 0 None, WordB,
                  Grp 2 (alts [Str ''floor'', Str ''level'', Str ''storey'', Str ''verdiep'',
                               Str ''etage'']), WordB]) ?q = None"
    using ab by (intro utilization_regex_none) blast+
  then show "fast_utilization_floor ?q = Inr None"
    unfolding fast_utilization_floor_def by (simp only: simp_thms if_False)
  show "fast_busiest py_repr ?q = Inr None"
    unfolding fast_busiest_def using ab by (simp only: simp_thms if_False)
  have now: "re_search (seqs [WordB, Grp 1 (alts [Str ''now'', Str ''right now'', Str ''currently'',
                                               Str ''this moment'']), WordB]) ?q = None"
    using ab by (intro now_regex_none) blast+
  have last: "re_search
           (seqs [Grp 1 (alts [Str ''last'', Str ''past'']), Rep Space 1 None,
                  Grp 2 (Rep Digit 1 None), Rep Space 0 None,
                  Grp 3 (alts [Str ''day'', Str ''days'', Str ''week'', Str ''weeks'',
                               Str ''month'', Str ''months''])]) ?q = None"
    using ab by (intro last_regex_none) blast+
  show "parse_days_hours ?q = Inr (None, None)"
    unfolding parse_days_hours_def Let_def n(1) now last using ab
    by (simp only: simp_thms if_False option.case)
  have "?q = [] @ ''underused'' @ ('' below '' @ ds)" by simp
  then show "py_in ''underused'' ?q" unfolding py_in_iff by blast
qed

lemma question_overflow:
  "fast_intent py_repr (''underused below '' @ replicate 310 (CHR ''9'')) = Inl OverflowError"
proof -
  let ?ds = "replicate 310 (CHR ''9'')"
  let ?q = "''underused below '' @ ?ds"
  have d: "list_all py_isdigit ?ds" by (simp add: list_all_iff py_isdigit_def)
  have e: "?ds \<noteq> []" by simp
  note n = question_normal [OF d e]
  note f = question_falls_through [OF d e]
  have u: "fast_underused py_repr ?q = Inl OverflowError"
    unfolding fast_underused_def Let_def f(7) threshold_overflow using f(8)
    by (simp only: simp_thms if_True then_do.simps prod.case)
  show ?thesis
    unfolding fast_intent_def Let_def n(2) f(2-6) u using f(1)
    by (simp only: if_False sum.case option.case)
qed

lemma question_stripped:
  "py_strip (''underused below '' @ replicate 310 (CHR ''9''))
     = ''underused below '' @ replicate 310 (CHR ''9'')"
  by (rule question_normal(3)) (simp_all add: list_all_iff py_isdigit_def)

section \<open>Claims about the safety gate\<close>







text \<open>
  C8 fails on a statement that ends in a line comment. The router's gate accepts
  \<open>select 1 -- note\<close> and puts its wrapper around it by plain concatenation, so the
  closing parenthesis, the alias and the \<open>LIMIT\<close> of the wrapper land inside the comment:
  the text the gate returns is not a statement any more, and carries no row cap that
  the database would see. Passed through the gate a second time, as
  \<open>DuckDBClient.query\<close> does with every statement it is given, it is rejected with the
  parse error, where the claim says that the second pass succeeds and returns it
  unchanged.
\<close>

theorem regate_rejects_commented_statement:
  "ensure_safe_select comment_aware_parser 500 ''select 1 -- note''
     = Inr ''SELECT * FROM (select 1 -- note) AS _t LIMIT 500''
   \<and> ensure_safe_select comment_aware_parser 500 ''SELECT * FROM (select 1 -- note) AS _t LIMIT 500''
     = Inl (ValueError ''SQL parse error: Expecting )'')
   \<and> DuckDBClient_ensure_safe_select True comment_aware_parser
       ''SELECT * FROM (select 1 -- note) AS _t LIMIT 500''
     = Inl (ValueError ''SQL parse error: Expecting )'')"
  by code_simp

text \<open>
  C10: the two gates disagree. The word \<open>call\<close> between spaces is banned by the database
  client only, and the word \<open>create\<close> on its own by the router only, so each gate accepts
  a statement that the other rejects. Both statements are plain selections of a string
  literal.
\<close>

theorem gates_disagree:
  "ensure_safe_select lenient_parser 500 ''select 'please call me' as note from t''
     = Inr ''SELECT * FROM (select 'please call me' as note from t) AS _t LIMIT 500''
   \<and> DuckDBClient_ensure_safe_select True lenient_parser ''select 'please call me' as note from t''
     = Inl (ValueError ''Unsafe keyword detected.'')
   \<and> ensure_safe_select lenient_parser 500 ''select 'we create value' as motto from t''
     = Inl (ValueError ''Unsafe keyword detected.'')
   \<and> DuckDBClient_ensure_safe_select True lenient_parser ''select 'we create value' as motto from t''
     = Inr ''SELECT * FROM (select 'we create value' as motto from t) AS _safe LIMIT 500''"
  by code_simp

section \<open>The two worked questions\<close>

lemmas text_eval = py_lower_def lower_char_def py_strip_def py_lstrip_def py_rstrip_def
  py_isspace_def py_isdigit_def py_isword_def

lemmas regex_eval = re_search_def group_def SignedDigits_def

lemmas number_eval = digit_val_def digits_val_def all_digits_def int_of_digits_def
  int_max_str_digits_def float_of_int_def

lemma underused_question_normal:
  "normalize_text ''underused rooms on floor 4 below 15%'' = ''underused rooms on floor 4 below 15%''"
  by (simp add: normalize_text_def text_eval)

lemma underused_question_not_list_floors:
  "\<not> intent_list_floors ''underused rooms on floor 4 below 15%''"
  by (simp add: intent_list_floors_def underused_question_normal contains_any_def LIST_VERBS_def)

lemma underused_question_rooms_on_floor:
  "intent_rooms_on_floor ''underused rooms on floor 4 below 15%'' = Inr (Some 4)"
  by (simp add: intent_rooms_on_floor_def underused_question_normal contains_any_def ROOM_WORDS_def
      text_eval regex_eval number_eval)

lemma underused_question_floor:
  "parse_floor ''underused rooms on floor 4 below 15%'' = Some ''4''"
  by (simp add: parse_floor_def text_eval regex_eval)

lemma underused_question_days:
  "parse_days_hours ''underused rooms on floor 4 below 15%'' = Inr (None, None)"
  by (simp add: parse_days_hours_def text_eval regex_eval number_eval)

lemma underused_question_threshold:
  "parse_threshold_percent ''underused rooms on floor 4 below 15%'' = Inr (Some (15 / 100))"
  by (simp add: parse_threshold_percent_def text_eval regex_eval number_eval)

lemma underused_block:
  "fast_underused py_repr ''underused rooms on floor 4 below 15%''
     = Inr (Some (tool_decision ''underused_rooms''
         [(''days'', PInt 30), (''threshold'', PFloat (15 / 100)), (''floor'', PStr ''4'')]
         (''fast_intent: underused_rooms '' @ py_repr (PDict
            [(''days'', PInt 30), (''threshold'', PFloat (15 / 100)), (''floor'', PStr ''4'')]))))"
  by (simp add: fast_underused_def underused_question_floor underused_question_days
      underused_question_threshold Let_def)

text \<open>
  C1: for the question \<open>underused rooms on floor 4 below 15%\<close> the matcher does not
  reach the underused-rooms block. The question names a room word and \<open>floor 4\<close>, so the
  rooms-on-floor matcher, second in the order, fires first and the decision is
  \<open>rooms_on_floor\<close> with \<open>floor = "4"\<close> and no threshold. The underused-rooms block, run
  on its own, gives what the claim expects: threshold 15/100 and floor \<open>"4"\<close>.
\<close>

theorem underused_question_shadowed:
  "fast_intent py_repr ''underused rooms on floor 4 below 15%''
     = Inr (Some (tool_decision ''rooms_on_floor'' [(''floor'', PStr ''4'')]
         (''fast_intent: rooms_on_floor floor=4 '' @ [CHR 0xE2, CHR 0x86, CHR 0x92] @ '' tool'')))
   \<and> fast_underused py_repr (normalize_text ''underused rooms on floor 4 below 15%'')
     = Inr (Some (tool_decision ''underused_rooms''
         [(''days'', PInt 30), (''threshold'', PFloat (15 / 100)), (''floor'', PStr ''4'')]
         (''fast_intent: underused_rooms '' @ py_repr (PDict
            [(''days'', PInt 30), (''threshold'', PFloat (15 / 100)), (''floor'', PStr ''4'')]))))"
  by (simp add: fast_intent_def underused_question_not_list_floors underused_question_rooms_on_floor
      underused_question_normal underused_block py_str_int_def str_nat.simps digit_char_def)

lemma why_question_normal:
  "normalize_text ''why is floor 2 always empty'' = ''why is floor 2 always empty''"
  by (simp add: normalize_text_def text_eval)

lemma why_question_not_list_floors: "\<not> intent_list_floors ''why is floor 2 always empty''"
  by (simp add: intent_list_floors_def why_question_normal contains_any_def LIST_VERBS_def)

lemma why_question_no_rooms: "intent_rooms_on_floor ''why is floor 2 always empty'' = Inr None"
  by (simp add: intent_rooms_on_floor_def why_question_normal contains_any_def ROOM_WORDS_def
      text_eval regex_eval number_eval)

lemma why_question_no_meeting: "fast_free_meeting ''why is floor 2 always empty'' = None"
  by (simp add: fast_free_meeting_def contains_any_def)

lemma why_question_no_utilization:
  "fast_utilization_by_floor ''why is floor 2 always empty'' = Inr None"
  "fast_utilization_floor ''why is floor 2 always empty'' = Inr None"
  by (simp_all add: fast_utilization_by_floor_def fast_utilization_floor_def text_eval regex_eval)

lemma why_question_no_ranking:
  "fast_busiest py_repr ''why is floor 2 always empty'' = Inr None"
  "fast_underused py_repr ''why is floor 2 always empty'' = Inr None"
  by (simp_all add: fast_busiest_def fast_underused_def)

lemma why_question_no_coffee: "fast_coffee py_repr ''why is floor 2 always empty'' = Inr None"
  by (simp add: fast_coffee_def contains_any_def)

lemma why_question_no_intent: "fast_intent py_repr ''why is floor 2 always empty'' = Inr None"
  by (simp add: fast_intent_def why_question_normal why_question_not_list_floors
      why_question_no_rooms why_question_no_meeting why_question_no_utilization
      why_question_no_ranking why_question_no_coffee)

lemma why_question_no_sql: "fast_sql parse_ok cap ''why is floor 2 always empty'' = Inr None"
  by (simp add: fast_sql_def text_eval regex_eval)

lemma why_question_needs_agent: "needs_agent ''why is floor 2 always empty''"
  by (simp add: needs_agent_def py_lower_def lower_char_def contains_any_def)

lemma why_question_stripped: "py_strip ''why is floor 2 always empty'' = ''why is floor 2 always empty''"
  by (simp add: text_eval)

text \<open>
  C4: for the question \<open>why is floor 2 always empty\<close> the escalation heuristic is true,
  neither deterministic stage matches, and \<open>infer\<close> returns the decision with mode
  \<open>agent\<close>, whatever the feature flags, the parser and the language model are.
\<close>

theorem why_question_escalates:
  "needs_agent ''why is floor 2 always empty''
   \<and> fast_intent py_repr ''why is floor 2 always empty'' = Inr None
   \<and> fast_sql parse_ok cap ''why is floor 2 always empty'' = Inr None
   \<and> infer cfg parse_ok json_loads py_repr llm (Some ''why is floor 2 always empty'')
       = Inr (agent_decision ''heuristic: needs_agent'')
   \<and> d_mode (agent_decision ''heuristic: needs_agent'') = ''agent''"
proof -
  have "infer cfg parse_ok json_loads py_repr llm (Some ''why is floor 2 always empty'')
       = Inr (agent_decision ''heuristic: needs_agent'')"
    unfolding infer_def
    by (simp only: option.case why_question_stripped Let_def why_question_no_intent
        why_question_no_sql why_question_needs_agent if_True if_cancel sum.case option.case)
  then show ?thesis
    using why_question_needs_agent why_question_no_intent why_question_no_sql
    by (simp add: agent_decision_def)
qed

section \<open>The deterministic stages and exceptions\<close>

text \<open>
  C9 fails on the question \<open>underused below\<close> followed by 310 nines. No earlier block of
  \<open>_fast_intent\<close> fires; the underused-rooms block does, and \<open>_parse_threshold_percent\<close>
  finds the number and divides \<open>int(...)\<close> by \<open>100.0\<close>. The integer is beyond the range of a
  \<open>float\<close>, so the division raises \<open>OverflowError\<close>. Nothing in \<open>_fast_intent\<close> catches it,
  and \<open>infer\<close> calls \<open>_fast_intent\<close> outside its \<open>try\<close> block, so the exception leaves the
  router, where the claim says that the deterministic stages never raise.
\<close>

theorem large_threshold_raises:
  "fast_intent py_repr (''underused below '' @ replicate 310 (CHR ''9'')) = Inl OverflowError
   \<and> infer default_config parse_one json_loads py_repr llm
         (Some (''underused below '' @ replicate 310 (CHR ''9''))) = Inl OverflowError"
proof
  show "fast_intent py_repr (''underused below '' @ replicate 310 (CHR ''9'')) = Inl OverflowError"
    by (rule question_overflow)
  have "FAST_INTENTS default_config" by (simp add: default_config_def)
  then show "infer default_config parse_one json_loads py_repr llm
         (Some (''underused below '' @ replicate 310 (CHR ''9''))) = Inl OverflowError"
    unfolding infer_def Let_def option.case question_stripped question_overflow
    by (simp only: if_True sum.case)
qed

section \<open>The shape of the decisions\<close>














end
